theory Spec2Isabelle
  imports Complex_Main
begin

section \<open>Confidence intervals of the notebook \<open>intro_confidenceintervals.ipynb\<close>\<close>

text \<open>
  The notebook computes two confidence intervals with closed formulas: one for a
  population proportion (cells 2 and 3) and one for a population mean (cells 8, 9 and 10).
  Each cell is embedded as a function of the variables it reads.

  Numbers: a Python \<open>float\<close> or numpy \<open>float64\<close> is modelled as an exact real number,
  or one of the three special values \<open>nan\<close>, \<open>inf\<close> and \<open>-inf\<close>. The rounding of a
  float operation, its overflow to an infinity and the sign of zero are abstracted away.
  What Python raises is not: the division of cell 2 raises \<open>ZeroDivisionError\<close> on a
  zero divisor and \<open>OverflowError\<close> on an int that has no float.
\<close>

subsection \<open>Float values\<close>

datatype pyfloat = Num real | PosInf | NegInf | NaN

datatype error = ZeroDivisionError | OverflowError

fun fneg :: "pyfloat \<Rightarrow> pyfloat" where
  "fneg (Num a) = Num (- a)"
| "fneg PosInf = NegInf"
| "fneg NegInf = PosInf"
| "fneg NaN = NaN"

text \<open>Addition: \<open>nan\<close> is absorbing, and \<open>inf + (-inf)\<close> is \<open>nan\<close>.\<close>

fun fadd :: "pyfloat \<Rightarrow> pyfloat \<Rightarrow> pyfloat" where
  "fadd (Num a) (Num b) = Num (a + b)"
| "fadd NaN y = NaN"
| "fadd x NaN = NaN"
| "fadd PosInf NegInf = NaN"
| "fadd NegInf PosInf = NaN"
| "fadd PosInf y = PosInf"
| "fadd NegInf y = NegInf"
| "fadd (Num a) PosInf = PosInf"
| "fadd (Num a) NegInf = NegInf"

definition fsub :: "pyfloat \<Rightarrow> pyfloat \<Rightarrow> pyfloat" where
  "fsub x y = fadd x (fneg y)"

text \<open>The infinity with the sign of a real number; \<open>nan\<close> for zero.\<close>

definition signed_inf :: "real \<Rightarrow> pyfloat" where
  "signed_inf a = (if a = 0 then NaN else if 0 < a then PosInf else NegInf)"

text \<open>Multiplication: \<open>0 * inf\<close> is \<open>nan\<close>.\<close>

fun fmul :: "pyfloat \<Rightarrow> pyfloat \<Rightarrow> pyfloat" where
  "fmul (Num a) (Num b) = Num (a * b)"
| "fmul NaN y = NaN"
| "fmul x NaN = NaN"
| "fmul (Num a) PosInf = signed_inf a"
| "fmul (Num a) NegInf = signed_inf (- a)"
| "fmul PosInf (Num b) = signed_inf b"
| "fmul NegInf (Num b) = signed_inf (- b)"
| "fmul PosInf PosInf = PosInf"
| "fmul NegInf NegInf = PosInf"
| "fmul PosInf NegInf = NegInf"
| "fmul NegInf PosInf = NegInf"

subsection \<open>Python and numpy primitives\<close>

text \<open>
  Python's \<open>float / int\<close> first converts the int to a float. The conversion rounds to
  the nearest float, ties to even, and raises \<open>OverflowError\<close> when that is beyond the
  largest float \<open>2^1024 - 2^971\<close>: from \<open>2^1024 - 2^970\<close> on, in absolute value.
\<close>

definition int_overflows :: "int \<Rightarrow> bool" where
  "int_overflows n = (2 ^ 1024 - 2 ^ 970 \<le> \<bar>n\<bar>)"

text \<open>
  After the conversion, a zero divisor raises \<open>ZeroDivisionError\<close>. A divisor that is
  not zero is at least 1 in absolute value, so the quotient is within the float range.
\<close>

definition py_float_div_int :: "real \<Rightarrow> int \<Rightarrow> error + real" where
  "py_float_div_int a n =
     (if int_overflows n then Inl OverflowError
      else if n = 0 then Inl ZeroDivisionError
      else Inr (a / real_of_int n))"

text \<open>
  numpy's \<open>/\<close> on \<open>float64\<close> raises nothing: a zero divisor gives \<open>nan\<close> for \<open>0 / 0\<close>
  and an infinity otherwise.
\<close>

fun np_div :: "pyfloat \<Rightarrow> pyfloat \<Rightarrow> pyfloat" where
  "np_div (Num a) (Num b) = (if b = 0 then signed_inf a else Num (a / b))"
| "np_div NaN y = NaN"
| "np_div x NaN = NaN"
| "np_div (Num a) PosInf = Num 0"
| "np_div (Num a) NegInf = Num 0"
| "np_div PosInf (Num b) = (if 0 \<le> b then PosInf else NegInf)"
| "np_div NegInf (Num b) = (if 0 \<le> b then NegInf else PosInf)"
| "np_div PosInf PosInf = NaN"
| "np_div PosInf NegInf = NaN"
| "np_div NegInf PosInf = NaN"
| "np_div NegInf NegInf = NaN"

text \<open>\<open>np.sqrt\<close> raises nothing: a negative argument gives \<open>nan\<close>.\<close>

fun np_sqrt :: "pyfloat \<Rightarrow> pyfloat" where
  "np_sqrt (Num a) = (if a < 0 then NaN else Num (sqrt a))"
| "np_sqrt PosInf = PosInf"
| "np_sqrt NegInf = NaN"
| "np_sqrt NaN = NaN"

subsection \<open>pandas reductions of a column\<close>

text \<open>
  \<open>Series.mean()\<close> is the sum over the count, \<open>nan\<close> for an empty column.
  \<open>Series.std()\<close> has \<open>ddof = 1\<close>: the square root of the sum of squared deviations
  from the mean over \<open>count - 1\<close>, and \<open>nan\<close> when the column has fewer than two values.
  The column holds the observations, all of them numbers.
\<close>

definition series_mean :: "real list \<Rightarrow> pyfloat" where
  "series_mean xs =
     (if xs = [] then NaN else Num (sum_list xs / real (length xs)))"

definition series_std :: "real list \<Rightarrow> pyfloat" where
  "series_std xs =
     (if length xs < 2 then NaN
      else (let avg = sum_list xs / real (length xs);
                sqr = sum_list (map (\<lambda>x. (x - avg)\<^sup>2) xs)
            in Num (sqrt (sqr / real (length xs - 1)))))"

subsection \<open>The cells of the notebook\<close>

text \<open>
  Cell 2: \<^verbatim>\<open>se = np.sqrt((p * (1 - p))/n)\<close>, with \<open>p\<close> a Python float and \<open>n\<close> a
  Python int, so the division is Python's \<open>float / int\<close>.
\<close>

definition se_proportion :: "real \<Rightarrow> int \<Rightarrow> error + pyfloat" where
  "se_proportion p n =
     (case py_float_div_int (p * (1 - p)) n of
        Inl e \<Rightarrow> Inl e
      | Inr q \<Rightarrow> Inr (np_sqrt (Num q)))"

text \<open>
  Cells 3 and 10: \<^verbatim>\<open>lcb = p - tstar * se\<close>, \<^verbatim>\<open>ucb = p + tstar * se\<close>
  (with \<open>mean\<close> for \<open>p\<close> in cell 10), and the value of the cell \<^verbatim>\<open>(lcb, ucb)\<close>.
\<close>

definition lcb :: "pyfloat \<Rightarrow> real \<Rightarrow> pyfloat \<Rightarrow> pyfloat" where
  "lcb est tstar se = fsub est (fmul (Num tstar) se)"

definition ucb :: "pyfloat \<Rightarrow> real \<Rightarrow> pyfloat \<Rightarrow> pyfloat" where
  "ucb est tstar se = fadd est (fmul (Num tstar) se)"

text \<open>Cells 2 and 3 in sequence, as a function of \<open>tstar\<close>, \<open>p\<close> and \<open>n\<close>.\<close>

definition proportion_cells :: "real \<Rightarrow> real \<Rightarrow> int \<Rightarrow> error + (pyfloat \<times> pyfloat)" where
  "proportion_cells tstar p n =
     (case se_proportion p n of
        Inl e \<Rightarrow> Inl e
      | Inr se \<Rightarrow> Inr (lcb (Num p) tstar se, ucb (Num p) tstar se))"

text \<open>Cell 9: \<^verbatim>\<open>se = sd/np.sqrt(n)\<close>, with \<open>sd\<close> a numpy float and \<open>n = len(df)\<close>.\<close>

definition se_mean :: "pyfloat \<Rightarrow> nat \<Rightarrow> pyfloat" where
  "se_mean sd n = np_div sd (np_sqrt (Num (real n)))"

text \<open>Cells 8, 9 and 10 in sequence, as a function of \<open>tstar\<close> and the column.\<close>

definition mean_cells :: "real \<Rightarrow> real list \<Rightarrow> error + (pyfloat \<times> pyfloat)" where
  "mean_cells tstar xs =
     (let mean = series_mean xs;
          sd = series_std xs;
          n = length xs;
          se = se_mean sd n
      in Inr (lcb mean tstar se, ucb mean tstar se))"

subsection \<open>The operations of the specification\<close>

text \<open>
  Modelled from the spec: the notebook assigns \<^verbatim>\<open>p = .85\<close> and has no code that
  computes the proportion from counts. The specification's \<open>proportionInterval\<close> takes
  counts and "computes \<open>p = successCount / trialCount\<close>"; the rest of it is cells 2 and 3
  with \<open>trialCount\<close> for \<open>n\<close> and \<open>confidenceMultiplier\<close> for \<open>tstar\<close>. So
  \<open>proportionInterval\<close> names the cells at that \<open>p\<close>, the exact quotient. It is meant for
  counts with \<open>0 \<le> successCount \<le> trialCount\<close> and \<open>0 < trialCount\<close>, where the quotient
  lies in \<open>[0, 1]\<close> and Python's \<open>/\<close> raises nothing, and it is evaluated on no other
  counts below. The specification's rule "fails with \<open>InvalidArgument\<close>" is no part of
  it: the cells have no such check, and what they do with a \<open>p\<close> outside \<open>[0, 1]\<close> or an
  \<open>n\<close> that is not positive is stated on \<open>proportion_cells\<close> itself.
\<close>

definition proportionInterval :: "int \<Rightarrow> int \<Rightarrow> real \<Rightarrow> error + (pyfloat \<times> pyfloat)" where
  "proportionInterval successCount trialCount confidenceMultiplier =
     proportion_cells confidenceMultiplier
       (real_of_int successCount / real_of_int trialCount) trialCount"

text \<open>The specification's \<open>meanInterval\<close> is cells 8 to 10 on the observations.\<close>

definition meanInterval :: "real list \<Rightarrow> real \<Rightarrow> error + (pyfloat \<times> pyfloat)" where
  "meanInterval observations confidenceMultiplier = mean_cells confidenceMultiplier observations"

text \<open>The quantities the specification names, as real numbers.\<close>

definition sample_mean :: "real list \<Rightarrow> real" where
  "sample_mean xs = sum_list xs / real (length xs)"


definition prop_se :: "real \<Rightarrow> real \<Rightarrow> real" where
  "prop_se p n = sqrt (p * (1 - p) / n)"

section \<open>Properties of the cells\<close>

subsection \<open>The range of floats\<close>

lemma small_int_in_range: "\<bar>n\<bar> < 2 ^ 64 \<Longrightarrow> \<not> int_overflows n"
  by (simp add: int_overflows_def)

lemma int_overflows_2_1024: "int_overflows (2 ^ 1024)"
  by (simp add: int_overflows_def)

subsection \<open>Bounds that are numbers, and bounds that are not\<close>

lemma fsub_Num: "fsub (Num a) (Num b) = Num (a - b)"
  by (simp add: fsub_def)

lemma lcb_Num: "lcb (Num est) tstar (Num se) = Num (est - tstar * se)"
  by (simp add: lcb_def fsub_Num)

lemma ucb_Num: "ucb (Num est) tstar (Num se) = Num (est + tstar * se)"
  by (simp add: ucb_def)

lemma lcb_NaN: "lcb est tstar NaN = NaN"
  by (cases est) (simp_all add: lcb_def fsub_def)

lemma ucb_NaN: "ucb est tstar NaN = NaN"
  by (cases est) (simp_all add: ucb_def)




lemma proportion_cells_cases:
  "proportion_cells tstar p n =
     (if int_overflows n then Inl OverflowError
      else if n = 0 then Inl ZeroDivisionError
      else if p * (1 - p) / real_of_int n < 0 then Inr (NaN, NaN)
      else Inr (Num (p - tstar * prop_se p (real_of_int n)),
                Num (p + tstar * prop_se p (real_of_int n))))"
  by (simp add: proportion_cells_def se_proportion_def py_float_div_int_def prop_se_def
      lcb_Num ucb_Num lcb_NaN ucb_NaN)

lemma proportion_cells_Num:
  assumes "\<not> int_overflows n" and "n \<noteq> 0" and "0 \<le> p * (1 - p) / real_of_int n"
  shows "proportion_cells tstar p n =
           Inr (Num (p - tstar * prop_se p (real_of_int n)),
                Num (p + tstar * prop_se p (real_of_int n)))"
  using assms by (simp add: proportion_cells_cases)


lemma proportion_cells_overflow:
  "int_overflows n \<Longrightarrow> proportion_cells tstar p n = Inl OverflowError"
  by (simp add: proportion_cells_cases)

lemma radicand_nonneg:
  assumes "0 \<le> s" "s \<le> t" "0 < t"
  shows "0 \<le> (real_of_int s / real_of_int t) * (1 - real_of_int s / real_of_int t) / real_of_int t"
proof -
  have "0 \<le> real_of_int s / real_of_int t" using assms by simp
  moreover have "real_of_int s / real_of_int t \<le> 1" using assms by simp
  ultimately show ?thesis using assms by simp
qed


lemma proportionInterval_valid:
  assumes "0 \<le> s" "s \<le> t" "0 < t" "\<not> int_overflows t"
  shows "proportionInterval s t c =
           Inr (Num (real_of_int s / real_of_int t
                     - c * prop_se (real_of_int s / real_of_int t) (real_of_int t)),
                Num (real_of_int s / real_of_int t
                     + c * prop_se (real_of_int s / real_of_int t) (real_of_int t)))"
proof -
  have nz: "t \<noteq> 0" using assms by simp
  show ?thesis
    unfolding proportionInterval_def
    by (rule proportion_cells_Num [OF assms(4) nz radicand_nonneg [OF assms(1-3)]])
qed

lemma proportionInterval_overflow:
  "int_overflows t \<Longrightarrow> proportionInterval s t c = Inl OverflowError"
  by (simp add: proportionInterval_def proportion_cells_overflow)


lemma series_mean_sample_mean:
  "xs \<noteq> [] \<Longrightarrow> series_mean xs = Num (sample_mean xs)"
  by (simp add: series_mean_def sample_mean_def)






lemma count_in_range: "0 < t \<Longrightarrow> t < 2 ^ 1024 - 2 ^ 970 \<Longrightarrow> \<not> int_overflows t"
  by (simp add: int_overflows_def)

section \<open>The claims\<close>

text \<open>
  C1. For all counts with \<open>0 \<le> successCount \<le> trialCount\<close> and \<open>0 < trialCount\<close>, and
  every positive multiplier, \<open>proportionInterval\<close> returns exactly
  \<open>(p - confidenceMultiplier * se, p + confidenceMultiplier * se)\<close>, where
  \<open>p = successCount / trialCount\<close> and \<open>se = sqrt (p * (1 - p) / trialCount)\<close>.
  Not for all: \<open>2^1023\<close> successes in \<open>2^1024\<close> trials are valid counts with \<open>p = 0.5\<close>,
  and the division of cell 2 raises \<open>OverflowError\<close>, since \<open>2^1024\<close> has no float.
\<close>

theorem proportionInterval_overflow_counterexample:
  "(0::int) \<le> 2 ^ 1023 \<and> (2::int) ^ 1023 \<le> 2 ^ 1024 \<and> (0::int) < 2 ^ 1024 \<and> (0::real) < 2 \<and>
   proportionInterval (2 ^ 1023) (2 ^ 1024) 2 = Inl OverflowError"
proof -
  have "proportionInterval (2 ^ 1023) (2 ^ 1024) 2 = Inl OverflowError"
    by (rule proportionInterval_overflow [OF int_overflows_2_1024])
  moreover have "(0::int) \<le> 2 ^ 1023 \<and> (2::int) ^ 1023 \<le> 2 ^ 1024 \<and> (0::int) < 2 ^ 1024 \<and> (0::real) < 2"
    by simp
  ultimately show ?thesis by (simp only: simp_thms)
qed

text \<open>
  C1, amended. For all counts with \<open>0 \<le> successCount \<le> trialCount\<close>, \<open>0 < trialCount\<close>
  and \<open>trialCount < 2^1024 - 2^970\<close> (the ints that have a float), and every positive
  multiplier, \<open>proportionInterval\<close> returns exactly
  \<open>(p - confidenceMultiplier * se, p + confidenceMultiplier * se)\<close>, where
  \<open>p = successCount / trialCount\<close> and \<open>se = sqrt (p * (1 - p) / trialCount)\<close>.
\<close>

theorem proportionInterval_formula:
  assumes "0 \<le> successCount" and "successCount \<le> trialCount" and "0 < trialCount"
    and "trialCount < 2 ^ 1024 - 2 ^ 970" and "0 < confidenceMultiplier"
  shows "proportionInterval successCount trialCount confidenceMultiplier =
           (let p = real_of_int successCount / real_of_int trialCount;
                se = sqrt (p * (1 - p) / real_of_int trialCount)
            in Inr (Num (p - confidenceMultiplier * se), Num (p + confidenceMultiplier * se)))"
  using proportionInterval_valid [OF assms(1-3) count_in_range [OF assms(3,4)], of confidenceMultiplier]
  by (simp add: Let_def prop_se_def)

theorem proportionInterval_formula_witness:
  "(0::int) \<le> 3 \<and> (3::int) \<le> 4 \<and> (0::int) < 4 \<and> (4::int) < 2 ^ 1024 - 2 ^ 970 \<and> (0::real) < 2 \<and>
   proportionInterval 3 4 2 = Inr (Num (3 / 4 - 2 * sqrt (3 / 64)), Num (3 / 4 + 2 * sqrt (3 / 64)))"
  using proportionInterval_formula [of 3 4 2] by (simp add: Let_def)






text \<open>
  C4. \<open>proportionInterval\<close> at \<open>successCount = 560\<close>, \<open>trialCount = 659\<close> and the
  multiplier 1.96 returns about \<open>(0.8227, 0.8773)\<close> to four decimal places. The worked
  example of the notebook has \<open>p = 0.85\<close>, which is not \<open>560 / 659\<close>: at these counts
  the lower bound is below 0.8225 and the upper bound below 0.8771.
\<close>

theorem worked_example_counterexample:
  "proportionInterval 560 659 (196 / 100) =
     Inr (Num (560 / 659 - 196 / 100 * sqrt (560 / 659 * (1 - 560 / 659) / 659)),
          Num (560 / 659 + 196 / 100 * sqrt (560 / 659 * (1 - 560 / 659) / 659))) \<and>
   560 / 659 - 196 / 100 * sqrt (560 / 659 * (1 - 560 / 659) / 659) < (8225 / 10000 :: real) \<and>
   560 / 659 + 196 / 100 * sqrt (560 / 659 * (1 - 560 / 659) / 659) < (8771 / 10000 :: real)"
proof -
  let ?r = "560 / 659 * (1 - 560 / 659) / 659 :: real"
  have "(13918 / 1000000)\<^sup>2 < ?r" by (simp add: power2_eq_square)
  then have lo: "13918 / 1000000 < sqrt ?r" by (rule real_less_rsqrt)
  have "?r < (13919 / 1000000)\<^sup>2" by (simp add: power2_eq_square)
  then have hi: "sqrt ?r < 13919 / 1000000" by (intro real_less_lsqrt) simp_all
  have e: "proportionInterval 560 659 (196 / 100) =
     Inr (Num (560 / 659 - 196 / 100 * sqrt ?r), Num (560 / 659 + 196 / 100 * sqrt ?r))"
    by (simp add: proportionInterval_valid small_int_in_range prop_se_def)
  have a: "560 / 659 - 196 / 100 * sqrt ?r < (8225 / 10000 :: real)" using lo by simp
  have b: "560 / 659 + 196 / 100 * sqrt ?r < (8771 / 10000 :: real)" using hi by simp
  show ?thesis using e a b by (intro conjI)
qed

text \<open>
  C4, amended. Cells 2 and 3 at \<open>p = 0.85\<close>, \<open>n = 659\<close> and \<open>tstar = 1.96\<close>, the values
  the notebook assigns, give a standard error of 0.013910 to six decimal places and the
  interval \<open>(0.8227, 0.8773)\<close> to four decimal places.
\<close>

theorem worked_example:
  "proportion_cells (196 / 100) (85 / 100) 659 =
     Inr (Num (85 / 100 - 196 / 100 * sqrt (85 / 100 * (1 - 85 / 100) / 659)),
          Num (85 / 100 + 196 / 100 * sqrt (85 / 100 * (1 - 85 / 100) / 659))) \<and>
   se_proportion (85 / 100) 659 = Inr (Num (sqrt (85 / 100 * (1 - 85 / 100) / 659))) \<and>
   \<bar>sqrt (85 / 100 * (1 - 85 / 100) / 659) - 13910 / 1000000\<bar> < (5 / 10000000 :: real) \<and>
   \<bar>85 / 100 - 196 / 100 * sqrt (85 / 100 * (1 - 85 / 100) / 659) - 8227 / 10000\<bar> < (5 / 100000 :: real) \<and>
   \<bar>85 / 100 + 196 / 100 * sqrt (85 / 100 * (1 - 85 / 100) / 659) - 8773 / 10000\<bar> < (5 / 100000 :: real)"
proof -
  let ?r = "85 / 100 * (1 - 85 / 100) / 659 :: real"
  have "(139095 / 10000000)\<^sup>2 < ?r" by (simp add: power2_eq_square)
  then have lo: "139095 / 10000000 < sqrt ?r" by (rule real_less_rsqrt)
  have "?r < (139096 / 10000000)\<^sup>2" by (simp add: power2_eq_square)
  then have hi: "sqrt ?r < 139096 / 10000000" by (intro real_less_lsqrt) simp_all
  have e: "proportion_cells (196 / 100) (85 / 100) 659 =
     Inr (Num (85 / 100 - 196 / 100 * sqrt ?r), Num (85 / 100 + 196 / 100 * sqrt ?r))"
    by (simp add: proportion_cells_Num small_int_in_range prop_se_def)
  have s: "se_proportion (85 / 100) 659 = Inr (Num (sqrt ?r))"
    by (simp add: se_proportion_def py_float_div_int_def small_int_in_range)
  have a: "\<bar>sqrt ?r - 13910 / 1000000\<bar> < (5 / 10000000 :: real)" using lo hi by simp
  have b: "\<bar>85 / 100 - 196 / 100 * sqrt ?r - 8227 / 10000\<bar> < (5 / 100000 :: real)" using lo hi by simp
  have c: "\<bar>85 / 100 + 196 / 100 * sqrt ?r - 8773 / 10000\<bar> < (5 / 100000 :: real)" using lo hi by simp
  show ?thesis using e s a b c by (intro conjI)
qed

text \<open>
  C5. With the proportion and the multiplier fixed, a larger \<open>trialCount\<close> gives a
  strictly narrower interval. As stated for every proportion this fails at \<open>p = 0\<close>
  (and at \<open>p = 1\<close>), where the half-width is zero at every \<open>trialCount\<close>: one and two
  trials without a success give the same interval.
\<close>

theorem narrowing_counterexample:
  "proportionInterval 0 1 2 = Inr (Num 0, Num 0) \<and> proportionInterval 0 2 2 = Inr (Num 0, Num 0)"
  by (simp add: proportionInterval_valid small_int_in_range prop_se_def)

text \<open>
  C5, amended. With the proportion fixed (\<open>s1 / n1 = s2 / n2\<close>, written
  \<open>s1 * n2 = s2 * n1\<close>) and a positive multiplier, valid counts with
  \<open>n1 < n2 < 2^1024 - 2^970\<close> give an interval at \<open>n2\<close> that is no wider than the one at
  \<open>n1\<close> and lies within it: the half-width \<open>c * sqrt (p * (1 - p) / n)\<close> does not grow.
\<close>

theorem narrowing_weak:
  assumes "0 \<le> s1" and "s1 \<le> n1" and "0 < n1" and "n1 < n2" and "n2 < 2 ^ 1024 - 2 ^ 970"
    and "s1 * n2 = s2 * n1" and "0 < c"
  shows "(let p = real_of_int s1 / real_of_int n1;
              h1 = c * sqrt (p * (1 - p) / real_of_int n1);
              h2 = c * sqrt (p * (1 - p) / real_of_int n2)
          in proportionInterval s1 n1 c = Inr (Num (p - h1), Num (p + h1)) \<and>
             proportionInterval s2 n2 c = Inr (Num (p - h2), Num (p + h2)) \<and>
             h2 \<le> h1 \<and> p - h1 \<le> p - h2 \<and> p + h2 \<le> p + h1)"
proof -
  define p where "p = real_of_int s1 / real_of_int n1"
  have n2: "0 < n2" using assms by simp
  have r1: "\<not> int_overflows n1" using assms by (intro count_in_range) simp_all
  have r2: "\<not> int_overflows n2" using assms n2 by (intro count_in_range) simp_all
  have "real_of_int (s1 * n2) = real_of_int (s2 * n1)" using assms(6) by simp
  then have peq: "real_of_int s2 / real_of_int n2 = p"
    using assms(3) n2 by (simp add: p_def field_simps)
  have p0: "0 \<le> p" and p1: "p \<le> 1" using assms by (simp_all add: p_def)
  have "0 \<le> real_of_int s2 / real_of_int n2" using p0 peq by simp
  then have s2: "0 \<le> s2" using n2 by (simp add: zero_le_divide_iff)
  have "real_of_int s2 / real_of_int n2 \<le> 1" using p1 peq by simp
  then have s2': "s2 \<le> n2" using n2 by simp
  have q: "0 \<le> p * (1 - p)" using p0 p1 by simp
  have "p * (1 - p) / real_of_int n2 \<le> p * (1 - p) / real_of_int n1"
    using q assms(3,4) by (intro divide_left_mono) simp_all
  then have le: "c * sqrt (p * (1 - p) / real_of_int n2) \<le> c * sqrt (p * (1 - p) / real_of_int n1)"
    using assms(7) by simp
  have a: "proportionInterval s1 n1 c =
      Inr (Num (p - c * sqrt (p * (1 - p) / real_of_int n1)), Num (p + c * sqrt (p * (1 - p) / real_of_int n1)))"
    using assms(1-3) r1 by (simp add: proportionInterval_valid prop_se_def p_def)
  have b: "proportionInterval s2 n2 c =
      Inr (Num (p - c * sqrt (p * (1 - p) / real_of_int n2)), Num (p + c * sqrt (p * (1 - p) / real_of_int n2)))"
    using s2 s2' n2 r2 by (simp add: proportionInterval_valid prop_se_def peq)
  show ?thesis using a b le unfolding p_def Let_def by simp
qed

theorem narrowing_weak_witness:
  "(0::int) \<le> 1 \<and> (1::int) \<le> 2 \<and> (0::int) < 2 \<and> (2::int) < 4 \<and> (4::int) < 2 ^ 1024 - 2 ^ 970 \<and>
   (1::int) * 4 = 2 * 2 \<and> (0::real) < 2 \<and>
   proportionInterval 1 2 2 = Inr (Num (1 / 2 - 2 * sqrt (1 / 8)), Num (1 / 2 + 2 * sqrt (1 / 8))) \<and>
   proportionInterval 2 4 2 = Inr (Num (1 / 2 - 2 * sqrt (1 / 16)), Num (1 / 2 + 2 * sqrt (1 / 16))) \<and>
   2 * sqrt (1 / 16) \<le> 2 * sqrt (1 / 8 :: real)"
  using narrowing_weak [of 1 2 4 2 2] by (simp add: Let_def)




text \<open>
  C8. \<open>proportionInterval\<close> does not clamp its bounds to \<open>[0, 1]\<close>: whenever it returns
  an interval on valid counts, the bounds are the values of the formula, and there are
  valid inputs with a lower bound below 0 and valid inputs with an upper bound above 1
  (one success in two trials with the multiplier 2 has both).
\<close>

theorem no_clamping:
  "(\<forall>s t c l u. 0 \<le> s \<and> s \<le> t \<and> 0 < t \<and> 0 < c \<and> proportionInterval s t c = Inr (l, u) \<longrightarrow>
      (let p = real_of_int s / real_of_int t;
           se = sqrt (p * (1 - p) / real_of_int t)
       in l = Num (p - c * se) \<and> u = Num (p + c * se))) \<and>
   (\<exists>s t c lo hi. 0 \<le> s \<and> s \<le> t \<and> 0 < t \<and> 0 < c \<and>
      proportionInterval s t c = Inr (Num lo, Num hi) \<and> lo < 0) \<and>
   (\<exists>s t c lo hi. 0 \<le> s \<and> s \<le> t \<and> 0 < t \<and> 0 < c \<and>
      proportionInterval s t c = Inr (Num lo, Num hi) \<and> 1 < hi)"
proof (intro conjI allI impI)
  fix s t :: int and c :: real and l u :: pyfloat
  assume v: "0 \<le> s \<and> s \<le> t \<and> 0 < t \<and> 0 < c \<and> proportionInterval s t c = Inr (l, u)"
  have r: "\<not> int_overflows t"
  proof
    assume "int_overflows t"
    then have "proportionInterval s t c = Inl OverflowError" by (rule proportionInterval_overflow)
    then show False using v by simp
  qed
  have "proportionInterval s t c =
           Inr (Num (real_of_int s / real_of_int t
                     - c * prop_se (real_of_int s / real_of_int t) (real_of_int t)),
                Num (real_of_int s / real_of_int t
                     + c * prop_se (real_of_int s / real_of_int t) (real_of_int t)))"
    using v r by (intro proportionInterval_valid) simp_all
  then show "let p = real_of_int s / real_of_int t;
           se = sqrt (p * (1 - p) / real_of_int t)
       in l = Num (p - c * se) \<and> u = Num (p + c * se)"
    using v by (simp add: Let_def prop_se_def)
next
  have e: "proportionInterval 1 2 2 = Inr (Num (1 / 2 - 2 * sqrt (1 / 8)), Num (1 / 2 + 2 * sqrt (1 / 8)))"
    by (simp add: proportionInterval_valid small_int_in_range prop_se_def)
  have "(1 / 4)\<^sup>2 < (1 / 8 :: real)" by (simp add: power2_eq_square)
  then have q: "1 / 4 < sqrt (1 / 8 :: real)" by (rule real_less_rsqrt)
  have lo: "1 / 2 - 2 * sqrt (1 / 8 :: real) < 0" using q by simp
  have hi: "1 < 1 / 2 + 2 * sqrt (1 / 8 :: real)" using q by simp
  show "\<exists>s t c lo hi. 0 \<le> s \<and> s \<le> t \<and> 0 < t \<and> 0 < c \<and>
      proportionInterval s t c = Inr (Num lo, Num hi) \<and> lo < 0"
    using e lo by (intro exI [of _ 1] exI [of _ 2] exI [of _ "2::real"] exI [of _ "1 / 2 - 2 * sqrt (1 / 8)"]
        exI [of _ "1 / 2 + 2 * sqrt (1 / 8)"]) simp
  show "\<exists>s t c lo hi. 0 \<le> s \<and> s \<le> t \<and> 0 < t \<and> 0 < c \<and>
      proportionInterval s t c = Inr (Num lo, Num hi) \<and> 1 < hi"
    using e hi by (intro exI [of _ 1] exI [of _ 2] exI [of _ "2::real"] exI [of _ "1 / 2 - 2 * sqrt (1 / 8)"]
        exI [of _ "1 / 2 + 2 * sqrt (1 / 8)"]) simp
qed

theorem no_clamping_witness:
  "(0::int) \<le> 1 \<and> (1::int) \<le> 2 \<and> (0::int) < 2 \<and> (0::real) < 2 \<and>
   proportionInterval 1 2 2 = Inr (lcb (Num (1 / 2)) 2 (Num (sqrt (1 / 8))), ucb (Num (1 / 2)) 2 (Num (sqrt (1 / 8)))) \<and>
   lcb (Num (1 / 2)) 2 (Num (sqrt (1 / 8))) = Num (1 / 2 - 2 * sqrt (1 / 8)) \<and>
   ucb (Num (1 / 2)) 2 (Num (sqrt (1 / 8))) = Num (1 / 2 + 2 * sqrt (1 / 8))"
proof -
  have e: "proportionInterval 1 2 2 =
      Inr (lcb (Num (1 / 2)) 2 (Num (sqrt (1 / 8))), ucb (Num (1 / 2)) 2 (Num (sqrt (1 / 8))))"
    by (simp add: proportionInterval_def proportion_cells_def se_proportion_def
        py_float_div_int_def small_int_in_range)
  have "\<forall>s t c l u. 0 \<le> s \<and> s \<le> t \<and> 0 < t \<and> 0 < c \<and> proportionInterval s t c = Inr (l, u) \<longrightarrow>
      (let p = real_of_int s / real_of_int t;
           se = sqrt (p * (1 - p) / real_of_int t)
       in l = Num (p - c * se) \<and> u = Num (p + c * se))"
    using no_clamping by (rule conjunct1)
  from this [rule_format, of 1 2 2 "lcb (Num (1 / 2)) 2 (Num (sqrt (1 / 8)))"
      "ucb (Num (1 / 2)) 2 (Num (sqrt (1 / 8)))"] e
  show ?thesis by (simp add: Let_def)
qed

text \<open>
  C9. When the standard error is zero (a proportion of exactly 0 or 1, or a column of
  identical observations), the operation does not fail and returns the interval
  \<open>(estimate, estimate)\<close>. With \<open>2^1024\<close> trials, a proportion of exactly 0 and a
  proportion of exactly 1 both fail: cell 2 raises \<open>OverflowError\<close>.
\<close>

theorem degenerate_counterexample:
  "(0::int) < 2 ^ 1024 \<and>
   real_of_int 0 / real_of_int (2 ^ 1024) = 0 \<and>
   proportionInterval 0 (2 ^ 1024) 2 = Inl OverflowError \<and>
   real_of_int (2 ^ 1024) / real_of_int (2 ^ 1024) = 1 \<and>
   proportionInterval (2 ^ 1024) (2 ^ 1024) 2 = Inl OverflowError"
proof -
  have "proportionInterval 0 (2 ^ 1024) 2 = Inl OverflowError"
    by (rule proportionInterval_overflow [OF int_overflows_2_1024])
  moreover have "proportionInterval (2 ^ 1024) (2 ^ 1024) 2 = Inl OverflowError"
    by (rule proportionInterval_overflow [OF int_overflows_2_1024])
  moreover have "(0::int) < 2 ^ 1024 \<and> real_of_int 0 / real_of_int (2 ^ 1024) = 0 \<and>
      real_of_int (2 ^ 1024) / real_of_int (2 ^ 1024) = 1"
    by simp
  ultimately show ?thesis by (simp only: simp_thms)
qed

text \<open>
  C9, amended. Whenever cell 2 or cell 9 yields \<open>se = 0\<close>, nothing is raised and the
  interval is \<open>(estimate, estimate)\<close>. A proportion of exactly 0 or 1 yields \<open>se = 0\<close> for
  every \<open>0 < trialCount < 2^1024 - 2^970\<close>. Nothing is said of a column of identical
  observations: whether its \<open>sd\<close> is zero depends on the rounding of the mean.
\<close>

theorem degenerate_interval:
  "(0 < t \<and> t < 2 ^ 1024 - 2 ^ 970 \<longrightarrow>
      se_proportion 0 t = Inr (Num 0) \<and> proportionInterval 0 t c = Inr (Num 0, Num 0)) \<and>
   (0 < t \<and> t < 2 ^ 1024 - 2 ^ 970 \<longrightarrow>
      se_proportion 1 t = Inr (Num 0) \<and> proportionInterval t t c = Inr (Num 1, Num 1)) \<and>
   (se_proportion p n = Inr (Num 0) \<longrightarrow> proportion_cells c p n = Inr (Num p, Num p)) \<and>
   (se_mean (series_std xs) (length xs) = Num 0 \<longrightarrow>
      series_mean xs = Num (sample_mean xs) \<and>
      meanInterval xs c = Inr (Num (sample_mean xs), Num (sample_mean xs)))"
proof (intro conjI impI)
  assume v: "0 < t \<and> t < 2 ^ 1024 - 2 ^ 970"
  then have r: "\<not> int_overflows t" by (simp add: count_in_range)
  show "se_proportion 0 t = Inr (Num 0)"
    using v r by (simp add: se_proportion_def py_float_div_int_def)
  show "proportionInterval 0 t c = Inr (Num 0, Num 0)"
    using v r by (simp add: proportionInterval_valid prop_se_def)
next
  assume v: "0 < t \<and> t < 2 ^ 1024 - 2 ^ 970"
  then have r: "\<not> int_overflows t" by (simp add: count_in_range)
  show "se_proportion 1 t = Inr (Num 0)"
    using v r by (simp add: se_proportion_def py_float_div_int_def)
  show "proportionInterval t t c = Inr (Num 1, Num 1)"
    using v r by (simp add: proportionInterval_valid prop_se_def)
next
  assume "se_proportion p n = Inr (Num 0)"
  then show "proportion_cells c p n = Inr (Num p, Num p)"
    by (simp add: proportion_cells_def lcb_Num ucb_Num)
next
  assume z: "se_mean (series_std xs) (length xs) = Num 0"
  have len: "2 \<le> length xs"
  proof (rule ccontr)
    assume "\<not> 2 \<le> length xs"
    then have "series_std xs = NaN" by (simp add: series_std_def)
    then show False using z by (simp add: se_mean_def)
  qed
  then have ne: "xs \<noteq> []" by auto
  show "series_mean xs = Num (sample_mean xs)" using ne by (rule series_mean_sample_mean)
  show "meanInterval xs c = Inr (Num (sample_mean xs), Num (sample_mean xs))"
    using z ne by (simp add: meanInterval_def mean_cells_def Let_def series_mean_sample_mean
        lcb_Num ucb_Num)
qed

theorem degenerate_interval_witness:
  "(0::int) < 5 \<and> (5::int) < 2 ^ 1024 - 2 ^ 970 \<and>
   proportionInterval 0 5 2 = Inr (Num 0, Num 0) \<and>
   proportionInterval 5 5 2 = Inr (Num 1, Num 1) \<and>
   se_proportion 1 5 = Inr (Num 0) \<and> proportion_cells 2 1 5 = Inr (Num 1, Num 1) \<and>
   se_mean (series_std [7, 7, 7]) (length [7, 7, 7 :: real]) = Num 0 \<and>
   meanInterval [7, 7, 7] 2 = Inr (Num 7, Num 7)"
proof -
  have b: "se_mean (series_std [7, 7, 7]) (length [7, 7, 7 :: real]) = Num 0"
    by (simp add: se_mean_def series_std_def Let_def)
  show ?thesis
    using degenerate_interval [of 5 2 1 5 "[7, 7, 7]"] b by (simp add: sample_mean_def)
qed



end
